theory Spec2Isabelle
  imports Main "HOL-Library.AList"
begin

section \<open>Package config: forwards and applications\<close>

text \<open>
  The constants of package \<open>config\<close>. Go strings are byte sequences and are
  modelled as \<open>string\<close>.
\<close>

definition ExecutableGo :: string where
  "ExecutableGo = ''go''"

definition ForwarderKubernetes :: string where
  "ForwarderKubernetes = ''kubernetes''"

definition ForwarderKubernetesRemote :: string where
  "ForwarderKubernetesRemote = ''kubernetes-remote''"

definition ForwarderSSH :: string where
  "ForwarderSSH = ''ssh''"

definition ForwarderSSHRemote :: string where
  "ForwarderSSHRemote = ''ssh-remote''"

text \<open>
  A Go \<open>map[string]bool\<close> literal is the list of its entries; \<open>map_index\<close> is the
  two-valued index expression \<open>value, ok := m[k]\<close>, which yields the zero value
  \<open>false\<close> together with \<open>ok = false\<close> for an absent key.
\<close>

definition AvailableForwarders :: "(string \<times> bool) list" where
  "AvailableForwarders =
     [(ForwarderKubernetes, True), (ForwarderKubernetesRemote, True),
      (ForwarderSSH, True), (ForwarderSSHRemote, True)]"

definition ProxifiedForwarders :: "(string \<times> bool) list" where
  "ProxifiedForwarders =
     [(ForwarderKubernetes, True), (ForwarderKubernetesRemote, True),
      (ForwarderSSH, True)]"

definition map_index :: "(string \<times> bool) list \<Rightarrow> string \<Rightarrow> bool \<times> bool" where
  "map_index m k = (case map_of m k of None \<Rightarrow> (False, False) | Some v \<Rightarrow> (v, True))"

record ForwardValues =
  Context :: string
  Namespace :: string
  Labels :: "(string \<times> string) list"
  Hostname :: string
  Ports :: "string list"
  Remote :: string
  Args :: "string list"

record Forward =
  Name :: string
  Type :: string
  Values :: ForwardValues

record Application =
  Name :: string
  Path :: string
  Executable :: string
  Hostname :: string
  Watch :: bool
  Env :: "(string \<times> string) list"
  Args :: "string list"

definition IsProxified :: "Forward \<Rightarrow> bool" where
  "IsProxified f =
     (let (value, ok) = map_index ProxifiedForwarders (Type f)
      in if ok \<and> value then True else False)"

text \<open>
  \<open>GetPath\<close> reads the filesystem and the process environment. Both are inputs of
  the model: \<open>Stat\<close> gives the outcome of \<open>os.Stat\<close> on a path (no error, an error
  for which \<open>os.IsNotExist\<close> holds, or any other error), \<open>Vars\<close> the variables of
  the environment. \<open>os.Getenv\<close> returns the empty string for an unset variable.
\<close>

datatype stat_result = StatOk | ErrNotExist | ErrOther

record os_state =
  Stat :: "string \<Rightarrow> stat_result"
  Vars :: "string \<rightharpoonup> string"

definition IsNotExist :: "stat_result \<Rightarrow> bool" where
  "IsNotExist err = (err = ErrNotExist)"

definition Getenv :: "os_state \<Rightarrow> string \<Rightarrow> string" where
  "Getenv os k = (case Vars os k of None \<Rightarrow> [] | Some v \<Rightarrow> v)"

definition GetPath :: "os_state \<Rightarrow> Application \<Rightarrow> string" where
  "GetPath os a =
     (let path = Path a
      in if Executable a = ExecutableGo
         then (if IsNotExist (Stat os path)
               then Getenv os ''GOPATH'' @ ''/src/'' @ Path a
               else path)
         else path)"

section \<open>Package rest: the retry helper\<close>

text \<open>
  Go's \<open>int\<close> and \<open>time.Duration\<close> are 64-bit two's complement integers. They
  are modelled as \<open>int\<close> with the wrap-around of every arithmetic operation
  written out by \<open>wrap64\<close>.
\<close>

definition wrap64 :: "int \<Rightarrow> int" where
  "wrap64 x = (x + 2 ^ 63) mod 2 ^ 64 - 2 ^ 63"

type_synonym error = string

record HttpRequest =
  Method :: string
  URL :: string

record Response =
  StatusCode :: int
  Header :: "(string \<times> string list) list"

text \<open>
  \<open>http.Header.Get\<close> looks the key up in its canonical form and returns the first
  value stored under it, the empty string when there is none.
  \<open>CanonicalMIMEHeaderKey\<close> leaves a key unchanged when one of its bytes is no
  header field byte (a letter, a digit or one of the marks of a token);
  otherwise it puts the first letter and every letter after a hyphen in upper
  case and the other letters in lower case.
\<close>

definition lower_letters :: string where
  "lower_letters = ''abcdefghijklmnopqrstuvwxyz''"

definition upper_letters :: string where
  "upper_letters = ''ABCDEFGHIJKLMNOPQRSTUVWXYZ''"

definition token_marks :: string where
  "token_marks =
     [CHR ''!'', CHR ''#'', CHR ''$'', CHR ''%'', CHR ''&'', CHR 0x27, CHR ''*'', CHR ''+'',
      CHR ''-'', CHR ''.'', CHR ''^'', CHR ''_'', CHR 0x60, CHR ''|'', CHR ''~'']"

definition validHeaderFieldByte :: "char \<Rightarrow> bool" where
  "validHeaderFieldByte ch =
     (ch \<in> set (lower_letters @ upper_letters @ ''0123456789'' @ token_marks))"

definition to_upper :: "char \<Rightarrow> char" where
  "to_upper ch =
     (case map_of (zip lower_letters upper_letters) ch of Some u \<Rightarrow> u | None \<Rightarrow> ch)"

definition to_lower :: "char \<Rightarrow> char" where
  "to_lower ch =
     (case map_of (zip upper_letters lower_letters) ch of Some l \<Rightarrow> l | None \<Rightarrow> ch)"

fun canonical_from :: "bool \<Rightarrow> string \<Rightarrow> string" where
  "canonical_from upper [] = []"
| "canonical_from upper (ch # s) =
     (let ch' = (if upper then to_upper ch else to_lower ch)
      in ch' # canonical_from (ch' = CHR ''-'') s)"

definition CanonicalMIMEHeaderKey :: "string \<Rightarrow> string" where
  "CanonicalMIMEHeaderKey s =
     (if list_all validHeaderFieldByte s then canonical_from True s else s)"

definition Header_Get :: "(string \<times> string list) list \<Rightarrow> string \<Rightarrow> string" where
  "Header_Get h k =
     (case map_of h (CanonicalMIMEHeaderKey k) of Some (v # vs) \<Rightarrow> v | _ \<Rightarrow> [])"

text \<open>
  The reason is a formatted message in the source; the model keeps which of the
  three formats was chosen and the arguments it was given. \<open>NoReason\<close> is the
  zero value (the empty string).
\<close>

datatype retry_reason =
    NoReason
  | ServerSideThrottling int int string
  | RetryableError int int error
  | StatusReason int int int

record RetryAfter =
  Wait :: int
  Attempt :: int
  Reason :: retry_reason

record withRetry =
  maxRetries :: int
  attempts :: int
  retryAfter :: "RetryAfter option"

text \<open>
  A call either returns a value or panics (a method called on a nil context, a
  field read through a nil pointer).
\<close>

datatype 'a outcome = Returns 'a | Panics

text \<open>
  Of a \<open>rest.Request\<close> the retry helper touches the body (absent, a reader that
  is no \<open>io.Seeker\<close>, or a seeker whose \<open>Seek(0, 0)\<close> succeeds or fails) and,
  through \<open>URL()\<close>, the client pointer, the field \<open>c\<close> of the source, here
  \<open>client\<close>. \<open>URL()\<close> is defined in another file of the package; it reads
  \<open>c.base\<close>, so it panics on a request whose client is nil. The URL itself only
  goes to the log. Of a \<open>context.Context\<close> the helper reads \<open>Err()\<close>.
\<close>

datatype request_body = NotSeeker | Seeker bool

record RESTClient =
  base :: "string option"

record Request =
  client :: "RESTClient option"
  body :: "request_body option"

definition Request_URL :: "Request \<Rightarrow> unit outcome" where
  "Request_URL rq = (case client rq of None \<Rightarrow> Panics | Some cl \<Rightarrow> Returns ())"

record Context =
  Err :: "error option"

type_synonym IsRetryableErrorFunc = "HttpRequest \<Rightarrow> error \<Rightarrow> bool"

definition IsErrorRetryable :: "IsRetryableErrorFunc \<Rightarrow> HttpRequest \<Rightarrow> error \<Rightarrow> bool" where
  "IsErrorRetryable r request e = r request e"

definition neverRetryError :: IsRetryableErrorFunc where
  "neverRetryError = (\<lambda>_ _. False)"

definition StatusTooManyRequests :: int where
  "StatusTooManyRequests = 429"

definition StatusInternalServerError :: int where
  "StatusInternalServerError = 500"

definition Second :: int where
  "Second = 1000000000"

definition SetMaxRetries :: "withRetry \<Rightarrow> int \<Rightarrow> withRetry" where
  "SetMaxRetries r n = r\<lparr>maxRetries := (if n < 0 then 0 else n)\<rparr>"

definition retryAfterResponse :: Response where
  "retryAfterResponse =
     \<lparr>StatusCode = StatusInternalServerError, Header = [(''Retry-After'', [''1''])]\<rparr>"

text \<open>
  \<open>retryAfterSeconds\<close> is defined in another file of the package; \<open>checkWait\<close>
  takes it as a parameter.
\<close>

definition checkWait :: "(Response \<Rightarrow> int \<times> bool) \<Rightarrow> Response \<Rightarrow> int \<times> bool" where
  "checkWait retryAfterSeconds rs =
     (let r = StatusCode rs
      in if r = StatusTooManyRequests \<or> r \<ge> 500 then retryAfterSeconds rs
         else (0, False))"

definition getRetryReason :: "int \<Rightarrow> int \<Rightarrow> Response \<Rightarrow> error option \<Rightarrow> retry_reason" where
  "getRetryReason retries seconds rs e =
     (if StatusCode rs = StatusTooManyRequests
      then ServerSideThrottling retries seconds
             (Header_Get (Header rs) ''X-Kubernetes-PF-FlowSchema-UID'')
      else case e of
             Some msg \<Rightarrow> RetryableError retries seconds msg
           | None \<Rightarrow> StatusReason retries seconds (StatusCode rs))"

definition prepareForNextRetry ::
  "Context option \<Rightarrow> Request option \<Rightarrow> error option outcome" where
  "prepareForNextRetry c request =
     (case c of
        None \<Rightarrow> Panics
      | Some cx \<Rightarrow>
          (case Err cx of
             Some e \<Rightarrow> Returns (Some e)
           | None \<Rightarrow>
               (case request of
                  None \<Rightarrow> Panics
                | Some rq \<Rightarrow>
                    (case body rq of
                       Some (Seeker False) \<Rightarrow>
                         Returns (Some ''can't Seek() back to beginning of body for *rest.Request'')
                     | _ \<Rightarrow>
                         (case Request_URL rq of
                            Panics \<Rightarrow> Panics
                          | Returns _ \<Rightarrow> Returns None)))))"

text \<open>
  The arguments of one \<open>IsNextRetry\<close> call: \<open>ctx\<close>, \<open>restReq\<close>, \<open>httpReq\<close>,
  \<open>resp\<close>, \<open>err\<close> and \<open>f\<close>; a nil pointer, a nil interface and a nil function
  are \<open>None\<close>.
\<close>

datatype call =
  Call "Context option" "Request option" "HttpRequest option" "Response option"
       "error option" "IsRetryableErrorFunc option"

fun IsNextRetry ::
  "(Response \<Rightarrow> int \<times> bool) \<Rightarrow> withRetry \<Rightarrow> call \<Rightarrow> bool outcome \<times> withRetry" where
  "IsNextRetry retryAfterSeconds r (Call c restReq httpReq resp e f) =
     (case httpReq of
        None \<Rightarrow> (Returns False, r)
      | Some hr \<Rightarrow>
          if resp = None \<and> e = None then (Returns False, r)
          else
            let n = wrap64 (attempts r + 1);
                r1 = r\<lparr>attempts := n,
                       retryAfter := Some \<lparr>Wait = 0, Attempt = n, Reason = NoReason\<rparr>\<rparr>
            in if n > maxRetries r1 then (Returns False, r1)
               else
                 let errIsRetryable =
                       (case (f, e) of
                          (Some g, Some msg) \<Rightarrow> IsErrorRetryable g hr msg
                        | _ \<Rightarrow> False);
                     resp1 = (if errIsRetryable then Some retryAfterResponse else resp)
                 in if e \<noteq> None \<and> \<not> errIsRetryable then (Returns False, r1)
                    else
                      (case resp1 of
                         None \<Rightarrow> (Panics, r1)
                       | Some rs \<Rightarrow>
                           let (seconds, wait) = checkWait retryAfterSeconds rs
                           in if \<not> wait then (Returns False, r1)
                              else
                                let r2 = r1\<lparr>retryAfter := Some
                                           \<lparr>Wait = wrap64 (seconds * Second), Attempt = n,
                                            Reason = getRetryReason n seconds rs e\<rparr>\<rparr>
                                in (case prepareForNextRetry c restReq of
                                      Panics \<Rightarrow> (Panics, r2)
                                    | Returns (Some _) \<Rightarrow> (Returns False, r2)
                                    | Returns None \<Rightarrow> (Returns True, r2))))"

text \<open>
  A sequence of \<open>IsNextRetry\<close> calls on one \<open>withRetry\<close> value: the outcomes in
  call order and the value after the last call.
\<close>

fun IsNextRetry_calls ::
  "(Response \<Rightarrow> int \<times> bool) \<Rightarrow> withRetry \<Rightarrow> call list \<Rightarrow> bool outcome list \<times> withRetry" where
  "IsNextRetry_calls retryAfterSeconds r [] = ([], r)"
| "IsNextRetry_calls retryAfterSeconds r (c # cs) =
     (let (out, r') = IsNextRetry retryAfterSeconds r c;
          (outs, r'') = IsNextRetry_calls retryAfterSeconds r' cs
      in (out # outs, r''))"

text \<open>The number of calls of a sequence that returned \<open>true\<close>.\<close>

definition retries_granted :: "bool outcome list \<Rightarrow> nat" where
  "retries_granted outs = length (filter (\<lambda>out. out = Returns True) outs)"

section \<open>Command monday: the lifecycle root\<close>

text \<open>
  An execution of the program is the list of its observable events in the order
  they happen, and the way the process ends. Console messages are events; the
  calls on the components (which live in other packages) are events too, and are
  taken to return.
\<close>

datatype event =
    InitRuntimeEnvironment
  | PrintError error
  | PrintExecuteError error
  | PrintBye
  | PrintNewline
  | PrintClosing
  | PrintLoopError error
  | LayoutInit
  | WatcherWatch
  | GuiSetKeybinding
  | StatusWrite string
  | GuiClose
  | WatcherStop
  | ForwarderStop
  | ProxyStop
  | RunnerStop

text \<open>
  The process ends by \<open>os.Exit\<close> (or by returning from \<open>main\<close>, which is exit
  status 0), by a panic, or not at all: it stays blocked on the signal channel.
\<close>

datatype ending = Exit int | Panic string | Blocked

text \<open>
  What the surroundings decide. \<open>Execute\<close> of the command library parses the
  command line: it fails before any command runs, or it runs the root command
  (the subcommands are outside this model). The prompt returns a choice or an
  error; the terminal UI's main loop ends because the Ctrl-C key binding ran
  \<open>quit\<close> inside it, or returns nil, \<open>ErrQuit\<close> or another error.
  \<open>interrupt\<close> says whether a signal is ever delivered on the channel that
  \<open>handleExitSignal\<close> waits on.
\<close>

datatype cobra_result = ExecuteError error | RunRoot

datatype prompt_result = Chosen string | PromptError error

datatype mainloop_result = KeyCtrlC | LoopNil | LoopErrQuit | LoopError error

record world =
  cobraResult :: cobra_result
  envUI :: bool
  flagUI :: bool
  loadResult :: "error option"
  promptResult :: prompt_result
  projectResult :: "error option"
  hostfileResult :: "error option"
  keybindingResult :: "error option"
  mainLoopResult :: mainloop_result
  interrupt :: bool

definition stopAll :: "event list \<Rightarrow> event list \<times> ending" where
  "stopAll tr =
     (tr @ [PrintClosing, WatcherStop, ForwarderStop, ProxyStop, RunnerStop], Exit 0)"

definition quit :: "event list \<Rightarrow> event list \<times> ending" where
  "quit tr = stopAll (tr @ [GuiClose])"

definition handleExitSignal :: "world \<Rightarrow> event list \<Rightarrow> event list \<times> ending" where
  "handleExitSignal w tr = (if interrupt w then stopAll tr else (tr, Blocked))"

text \<open>
  A function that may end the process returns \<open>Inl\<close> of the ending, or
  \<open>Inr\<close> of its result when it returns to its caller.
\<close>

definition selectProject :: "world \<Rightarrow> event list \<Rightarrow> event list \<times> (ending + string)" where
  "selectProject w tr =
     (case promptResult w of
        PromptError e \<Rightarrow>
          if e = ''^C'' then (tr @ [PrintBye], Inl (Exit 0))
          else (tr, Inl (Panic (''selection error:'' @ [CHR 0x0A] @ e)))
      | Chosen choice \<Rightarrow> (tr @ [PrintNewline], Inr choice))"

definition uiEnabled :: "world \<Rightarrow> bool" where
  "uiEnabled w = (if \<not> envUI w then flagUI w else True)"

definition runProject :: "world \<Rightarrow> string \<Rightarrow> event list \<Rightarrow> event list \<times> (ending + unit)" where
  "runProject w choice tr =
     (let tr1 = tr @ [LayoutInit]
      in case projectResult w of
           Some e \<Rightarrow> (tr1, Inl (Panic e))
         | None \<Rightarrow>
             (case hostfileResult w of
                Some e \<Rightarrow> (tr1, Inl (Panic e))
              | None \<Rightarrow>
                  let tr2 = tr1 @ [WatcherWatch]
                  in if uiEnabled w
                     then
                       (case keybindingResult w of
                          Some e \<Rightarrow> (tr2 @ [GuiSetKeybinding, GuiClose], Inl (Panic e))
                        | None \<Rightarrow>
                            let tr3 = tr2 @ [GuiSetKeybinding, StatusWrite choice]
                            in (case mainLoopResult w of
                                  KeyCtrlC \<Rightarrow>
                                    (let (tr4, t) = quit tr3 in (tr4, Inl t))
                                | LoopError e \<Rightarrow>
                                    (let (tr4, t) = stopAll (tr3 @ [PrintLoopError e])
                                     in (tr4, Inl t))
                                | _ \<Rightarrow> (tr3 @ [GuiClose], Inr ())))
                     else (tr2, Inr ())))"

text \<open>The \<open>Run\<close> function of the root command.\<close>

definition rootRun :: "world \<Rightarrow> event list \<Rightarrow> event list \<times> (ending + unit)" where
  "rootRun w tr =
     (case loadResult w of
        Some e \<Rightarrow> (tr @ [PrintError e], Inr ())
      | None \<Rightarrow>
          (case selectProject w tr of
             (tr1, Inl t) \<Rightarrow> (tr1, Inl t)
           | (tr1, Inr choice) \<Rightarrow>
               (case runProject w choice tr1 of
                  (tr2, Inl t) \<Rightarrow> (tr2, Inl t)
                | (tr2, Inr _) \<Rightarrow>
                    (let (tr3, t) = handleExitSignal w tr2 in (tr3, Inl t)))))"

definition main :: "world \<Rightarrow> event list \<times> ending" where
  "main w =
     (let tr = [InitRuntimeEnvironment]
      in case cobraResult w of
           ExecuteError e \<Rightarrow> (tr @ [PrintExecuteError e], Exit 1)
         | RunRoot \<Rightarrow>
             (case rootRun w tr of
                (tr1, Inl t) \<Rightarrow> (tr1, t)
              | (tr1, Inr _) \<Rightarrow> (tr1, Exit 0)))"

text \<open>
  The exit status of an execution, if the process exits; the position of the
  first occurrence of an event in a trace; and whether an event is invoked in a
  trace before another one is.
\<close>

definition exit_status :: "world \<Rightarrow> int option" where
  "exit_status w = (case snd (main w) of Exit c \<Rightarrow> Some c | _ \<Rightarrow> None)"

fun first_index :: "event \<Rightarrow> event list \<Rightarrow> nat option" where
  "first_index a [] = None"
| "first_index a (x # xs) =
     (if x = a then Some 0 else map_option Suc (first_index a xs))"

definition invoked_before :: "event \<Rightarrow> event \<Rightarrow> event list \<Rightarrow> bool" where
  "invoked_before a b tr =
     (case (first_index a tr, first_index b tr) of
        (Some i, Some j) \<Rightarrow> i < j
      | _ \<Rightarrow> False)"

definition is_stop :: "event \<Rightarrow> bool" where
  "is_stop ev = (ev = WatcherStop \<or> ev = ForwarderStop \<or> ev = ProxyStop \<or> ev = RunnerStop)"

definition stop_calls :: "event list \<Rightarrow> event list" where
  "stop_calls tr = filter is_stop tr"

text \<open>
  Two kinds of execution. In \<open>received_interrupt\<close> the root command starts the
  project (configuration loaded, a project chosen and found, hosts file opened,
  and with the UI enabled the key binding set and the main loop left without
  error) and a signal then arrives on the channel of \<open>handleExitSignal\<close>. In
  \<open>ui_quit\<close> the project is started with the UI and the Ctrl-C key binding runs
  \<open>quit\<close>.
\<close>

definition received_interrupt :: "world \<Rightarrow> bool" where
  "received_interrupt w =
     (cobraResult w = RunRoot \<and> loadResult w = None \<and>
      (case promptResult w of Chosen _ \<Rightarrow> True | PromptError _ \<Rightarrow> False) \<and>
      projectResult w = None \<and> hostfileResult w = None \<and>
      (if uiEnabled w
       then keybindingResult w = None \<and>
            (mainLoopResult w = LoopNil \<or> mainLoopResult w = LoopErrQuit)
       else True) \<and>
      interrupt w)"

definition ui_quit :: "world \<Rightarrow> bool" where
  "ui_quit w =
     (cobraResult w = RunRoot \<and> loadResult w = None \<and>
      (case promptResult w of Chosen _ \<Rightarrow> True | PromptError _ \<Rightarrow> False) \<and>
      projectResult w = None \<and> hostfileResult w = None \<and>
      uiEnabled w \<and> keybindingResult w = None \<and> mainLoopResult w = KeyCtrlC)"

section \<open>Package hostfile and package proxy\<close>

text \<open>
  Modelled from the spec: the hostfile editor (package \<open>hostfile\<close>) is not among
  the sources. Its state is the managed region of the resolver file, a list of
  \<open>(ip, hostname)\<close> lines in file order. \<open>AddHost\<close> adds the line \<open>ip hostname\<close>
  to the region and is idempotent on \<open>(ip, hostname)\<close> pairs. \<open>addHostCalls\<close>
  records the calls made on the editor, as the mock of the proxy's tests does.
  The model is the editor on a writable file, where \<open>AddHost\<close> returns no error
  (the mock returns nil); the spec does not say what the proxy does with an
  error of the editor.
\<close>

record Hostfile =
  entries :: "(string \<times> string) list"
  addHostCalls :: "(string \<times> string) list"

text \<open>
  Modelled from the spec: \<open>AddHost(ip, hostname)\<close> of the hostfile editor, which is
  not among the sources. It adds \<open>ip hostname\<close> inside the managed region and is
  idempotent on \<open>(ip, hostname)\<close> pairs. The error results the spec gives it
  (permission denied, I/O error) are not part of the model.
\<close>

definition AddHost :: "Hostfile \<Rightarrow> string \<Rightarrow> string \<Rightarrow> Hostfile" where
  "AddHost h ip hostname =
     h\<lparr>entries := (if (ip, hostname) \<in> set (entries h) then entries h
                    else entries h @ [(ip, hostname)]),
       addHostCalls := addHostCalls h @ [(ip, hostname)]\<rparr>"

text \<open>
  \<open>strconv.Itoa\<close> on a number that is not negative: its decimal digits, most
  significant first, without leading zeros.
\<close>

definition digit_char :: "nat \<Rightarrow> char" where
  "digit_char d = ''0123456789'' ! d"

fun Itoa :: "nat \<Rightarrow> string" where
  "Itoa n = (if n < 10 then [digit_char n] else Itoa (n div 10) @ [digit_char (n mod 10)])"

declare Itoa.simps [simp del]

text \<open>
  Modelled from the spec: \<open>pkg/proxy/proxy.go\<close> is not among the sources (only
  its tests are). A ProxyForward is the runtime record of the data model. The
  proxy maintains a \<open>name \<rightarrow> ProxyForward\<close> map (a list of entries with distinct
  names), a port cursor that starts at 9400 and an IP cursor, the last byte of
  \<open>127.1.2.X\<close>, that starts at 1; the tests read the cursors as \<open>latestPort\<close>
  (in decimal) and \<open>ipLastByte\<close>. \<open>AddProxyForward\<close> registers a forward under a
  name: it gives the forward the proxy IP and proxy port under the cursors,
  calls the hostfile editor for the pair \<open>(proxy_ip, target_hostname)\<close>, stores
  the forward in the map and advances both cursors by one.
\<close>

record ProxyForward =
  name :: string
  target_hostname :: string
  proxy_ip :: string
  proxy_port :: nat
  forward_port :: nat
  local_port :: nat

record proxy =
  hostfile :: Hostfile
  ProxyForwards :: "(string \<times> ProxyForward) list"
  latestPort :: nat
  ipLastByte :: nat

text \<open>
  Modelled from the spec: \<open>NewProxy\<close> of \<open>pkg/proxy/proxy.go\<close>, which is not among
  the sources. A new proxy has no forward; its cursors are at port 9400 and last
  byte 1.
\<close>

definition NewProxy :: "Hostfile \<Rightarrow> proxy" where
  "NewProxy h = \<lparr>hostfile = h, ProxyForwards = [], latestPort = 9400, ipLastByte = 1\<rparr>"

text \<open>
  Modelled from the spec: the allocation policy of the proxy, whose code is not
  among the sources. The forward gets the IP \<open>127.1.2.X\<close> of the IP cursor and the
  port of the port cursor. This is the cursor scheme, the one whose cursors the
  proxy's tests read. The spec's other scheme (mirroring the remote port) and
  the fatal overflow of a cursor, for which the spec gives no bound, are not
  part of it.
\<close>

definition allocate :: "proxy \<Rightarrow> ProxyForward \<Rightarrow> ProxyForward" where
  "allocate p pf =
     pf\<lparr>proxy_ip := ''127.1.2.'' @ Itoa (ipLastByte p), proxy_port := latestPort p\<rparr>"

text \<open>
  Modelled from the spec: \<open>AddProxyForward(name, pf)\<close> of \<open>pkg/proxy/proxy.go\<close>,
  which is not among the sources. It registers the forward under the name, calls
  the hostfile editor for \<open>(proxy_ip, target_hostname)\<close> and advances the cursors.
\<close>

definition AddProxyForward :: "proxy \<Rightarrow> string \<Rightarrow> ProxyForward \<Rightarrow> proxy" where
  "AddProxyForward p nm pf =
     (let pf' = allocate p pf
      in p\<lparr>hostfile := AddHost (hostfile p) (proxy_ip pf') (target_hostname pf'),
           ProxyForwards := AList.update nm pf' (ProxyForwards p),
           latestPort := latestPort p + 1,
           ipLastByte := ipLastByte p + 1\<rparr>)"

text \<open>
  A sequence of \<open>AddProxyForward\<close> calls, each a name and a ProxyForward: the
  proxy after the last call.
\<close>

fun AddProxyForward_calls :: "proxy \<Rightarrow> (string \<times> ProxyForward) list \<Rightarrow> proxy" where
  "AddProxyForward_calls p [] = p"
| "AddProxyForward_calls p ((nm, pf) # cs) = AddProxyForward_calls (AddProxyForward p nm pf) cs"

section \<open>Properties of package config\<close>

text \<open>
  C3. For every forward, \<open>IsProxified\<close> is true exactly when the forward's type is
  one of \<open>kubernetes\<close>, \<open>kubernetes-remote\<close> or \<open>ssh\<close>; it is false for
  \<open>ssh-remote\<close>, for the empty string and for every other string.
\<close>

theorem IsProxified_iff:
  "IsProxified f = (Type f \<in> {''kubernetes'', ''kubernetes-remote'', ''ssh''})"
  by (simp add: IsProxified_def map_index_def ProxifiedForwarders_def
      ForwarderKubernetes_def ForwarderKubernetesRemote_def ForwarderSSH_def)

text \<open>
  C4. For an application whose executable is the sentinel \<open>go\<close> and whose path
  does not exist (\<open>os.Stat\<close> fails with a not-exist error), \<open>GetPath\<close> returns
  \<open>$GOPATH/src/\<close> followed by the path, \<open>$GOPATH\<close> read from the environment;
  for an application with any other executable it returns the path unchanged,
  whatever the filesystem holds.
\<close>

theorem GetPath_go_or_literal:
  "(Executable a = ''go'' \<and> Stat os (Path a) = ErrNotExist \<longrightarrow>
      GetPath os a = Getenv os ''GOPATH'' @ ''/src/'' @ Path a) \<and>
   (Executable a \<noteq> ''go'' \<longrightarrow> GetPath os a = Path a)"
  by (simp add: GetPath_def ExecutableGo_def IsNotExist_def Let_def)

theorem GetPath_go_or_literal_witness:
  "GetPath \<lparr>Stat = (\<lambda>p. ErrNotExist), Vars = [''GOPATH'' \<mapsto> ''/home/dev/go'']\<rparr>
     \<lparr>Name = ''api'', Path = ''github.com/acme/api'', Executable = ''go'',
      Hostname = [], Watch = False, Env = [], Args = []\<rparr>
     = ''/home/dev/go/src/github.com/acme/api'' \<and>
   GetPath \<lparr>Stat = (\<lambda>p. ErrNotExist), Vars = [''GOPATH'' \<mapsto> ''/home/dev/go'']\<rparr>
     \<lparr>Name = ''web'', Path = ''/srv/web'', Executable = ''npm'',
      Hostname = [], Watch = False, Env = [], Args = []\<rparr>
     = ''/srv/web''"
  using GetPath_go_or_literal
    [of "\<lparr>Name = ''api'', Path = ''github.com/acme/api'', Executable = ''go'',
          Hostname = [], Watch = False, Env = [], Args = []\<rparr>"
        "\<lparr>Stat = (\<lambda>p. ErrNotExist), Vars = [''GOPATH'' \<mapsto> ''/home/dev/go'']\<rparr>"]
    GetPath_go_or_literal
    [of "\<lparr>Name = ''web'', Path = ''/srv/web'', Executable = ''npm'',
          Hostname = [], Watch = False, Env = [], Args = []\<rparr>"
        "\<lparr>Stat = (\<lambda>p. ErrNotExist), Vars = [''GOPATH'' \<mapsto> ''/home/dev/go'']\<rparr>"]
  by (simp add: Getenv_def)

section \<open>Properties of the retry helper\<close>

lemma wrap64_id: "- (2 ^ 63) \<le> x \<Longrightarrow> x < 2 ^ 63 \<Longrightarrow> wrap64 x = x"
  by (simp add: wrap64_def)

lemma IsNextRetry_step:
  assumes "IsNextRetry ras r c = (out, r')"
  shows "maxRetries r' = maxRetries r \<and>
         ((r' = r \<and> out = Returns False) \<or>
          (attempts r' = wrap64 (attempts r + 1) \<and>
           (out = Returns True \<longrightarrow> attempts r' \<le> maxRetries r)))"
proof (cases c)
  case (Call cx rq hr rs e g)
  show ?thesis
    using assms unfolding Call
    by (auto simp: Let_def split: option.splits if_splits prod.splits outcome.splits)
qed

lemma IsNextRetry_over:
  "wrap64 (attempts r + 1) > maxRetries r \<Longrightarrow> fst (IsNextRetry ras r c) = Returns False"
  by (cases c) (auto simp: Let_def split: option.splits)

lemma IsNextRetry_bad_input:
  "hr = None \<or> (rs = None \<and> e = None) \<Longrightarrow>
   IsNextRetry ras r (Call cx rq hr rs e g) = (Returns False, r)"
  by (auto split: option.splits)

lemma retries_granted_Cons:
  "retries_granted (out # outs) = (if out = Returns True then 1 else 0) + retries_granted outs"
  by (simp add: retries_granted_def)

lemma IsNextRetry_calls_bound:
  "0 \<le> attempts r \<Longrightarrow> attempts r + int (length cs) < 2 ^ 63 \<Longrightarrow>
   int (retries_granted (fst (IsNextRetry_calls ras r cs))) \<le> max 0 (maxRetries r - attempts r)"
proof (induction cs arbitrary: r)
  case Nil
  then show ?case by (simp add: retries_granted_def)
next
  case (Cons c cs)
  obtain out r' where step: "IsNextRetry ras r c = (out, r')" by (cases "IsNextRetry ras r c")
  obtain outs r'' where rest: "IsNextRetry_calls ras r' cs = (outs, r'')"
    by (cases "IsNextRetry_calls ras r' cs")
  from IsNextRetry_step [OF step]
  have mr: "maxRetries r' = maxRetries r"
    and alt: "(r' = r \<and> out = Returns False) \<or>
          (attempts r' = wrap64 (attempts r + 1) \<and>
           (out = Returns True \<longrightarrow> attempts r' \<le> maxRetries r))" by simp_all
  have w: "wrap64 (attempts r + 1) = attempts r + 1"
    using Cons.prems by (intro wrap64_id) auto
  from alt show ?case
  proof
    assume a: "r' = r \<and> out = Returns False"
    have "int (retries_granted (fst (IsNextRetry_calls ras r' cs))) \<le> max 0 (maxRetries r' - attempts r')"
      using Cons.prems a by (intro Cons.IH) auto
    then show ?thesis using a step rest by (simp add: retries_granted_Cons)
  next
    assume a: "attempts r' = wrap64 (attempts r + 1) \<and>
           (out = Returns True \<longrightarrow> attempts r' \<le> maxRetries r)"
    have "int (retries_granted (fst (IsNextRetry_calls ras r' cs))) \<le> max 0 (maxRetries r' - attempts r')"
      using Cons.prems a w by (intro Cons.IH) auto
    then show ?thesis using a w mr step rest by (auto simp: retries_granted_Cons)
  qed
qed


text \<open>
  C10. The retry helper never retries beyond its ceiling. \<open>SetMaxRetries\<close> with a
  negative argument sets \<open>maxRetries\<close> to 0. \<open>IsNextRetry\<close> returns false
  whenever the incremented attempt count exceeds \<open>maxRetries\<close>, and returns false,
  leaving the value untouched, when the HTTP request is nil or both the response
  and the error are nil. Over a sequence of calls on a value whose attempt count
  starts non-negative (0 for a new value) and stays below \<open>2 ^ 63\<close>, at most
  \<open>maxRetries - attempts\<close> calls return true; with \<open>maxRetries\<close> 0 none does.
\<close>

theorem IsNextRetry_ceiling:
  "(n < 0 \<longrightarrow> maxRetries (SetMaxRetries r n) = 0) \<and>
   (maxRetries r < wrap64 (attempts r + 1) \<longrightarrow>
      fst (IsNextRetry ras r c) = Returns False) \<and>
   (hr = None \<or> (rs = None \<and> e = None) \<longrightarrow>
      IsNextRetry ras r (Call cx rq hr rs e g) = (Returns False, r)) \<and>
   (0 \<le> attempts r \<and> attempts r + int (length cs) < 2 ^ 63 \<longrightarrow>
      int (retries_granted (fst (IsNextRetry_calls ras r cs)))
        \<le> max 0 (maxRetries r - attempts r)) \<and>
   (0 \<le> attempts r \<and> attempts r + int (length cs) < 2 ^ 63 \<and> maxRetries r = 0 \<longrightarrow>
      Returns True \<notin> set (fst (IsNextRetry_calls ras r cs)))"
proof -
  have neg: "n < 0 \<longrightarrow> maxRetries (SetMaxRetries r n) = 0"
    by (simp add: SetMaxRetries_def)
  have over: "maxRetries r < wrap64 (attempts r + 1) \<longrightarrow>
      fst (IsNextRetry ras r c) = Returns False"
    using IsNextRetry_over by blast
  have bad: "hr = None \<or> (rs = None \<and> e = None) \<longrightarrow>
      IsNextRetry ras r (Call cx rq hr rs e g) = (Returns False, r)"
    using IsNextRetry_bad_input by blast
  have bound: "0 \<le> attempts r \<and> attempts r + int (length cs) < 2 ^ 63 \<longrightarrow>
      int (retries_granted (fst (IsNextRetry_calls ras r cs)))
        \<le> max 0 (maxRetries r - attempts r)"
    using IsNextRetry_calls_bound by blast
  have never: "0 \<le> attempts r \<and> attempts r + int (length cs) < 2 ^ 63 \<and> maxRetries r = 0 \<longrightarrow>
      Returns True \<notin> set (fst (IsNextRetry_calls ras r cs))"
  proof (intro impI)
    assume a: "0 \<le> attempts r \<and> attempts r + int (length cs) < 2 ^ 63 \<and> maxRetries r = 0"
    with bound have "int (retries_granted (fst (IsNextRetry_calls ras r cs))) \<le> 0"
      by simp
    then have "filter (\<lambda>out. out = Returns True) (fst (IsNextRetry_calls ras r cs)) = []"
      by (simp add: retries_granted_def)
    then show "Returns True \<notin> set (fst (IsNextRetry_calls ras r cs))"
      by (auto simp: filter_empty_conv)
  qed
  from neg over bad bound never show ?thesis by blast
qed

theorem IsNextRetry_ceiling_witness:
  "maxRetries (SetMaxRetries \<lparr>maxRetries = 0, attempts = 0, retryAfter = None\<rparr> (- 3)) = 0 \<and>
   fst (IsNextRetry (\<lambda>rs. (1, True)) \<lparr>maxRetries = 0, attempts = 0, retryAfter = None\<rparr>
         (Call (Some \<lparr>Err = None\<rparr>) (Some \<lparr>client = Some \<lparr>base = None\<rparr>, body = None\<rparr>)
            (Some \<lparr>Method = ''GET'', URL = ''/api/v1/pods''\<rparr>)
            (Some \<lparr>StatusCode = 429, Header = [(''Retry-After'', [''1''])]\<rparr>) None None))
     = Returns False \<and>
   IsNextRetry (\<lambda>rs. (1, True)) \<lparr>maxRetries = 0, attempts = 0, retryAfter = None\<rparr>
     (Call (Some \<lparr>Err = None\<rparr>) (Some \<lparr>client = Some \<lparr>base = None\<rparr>, body = None\<rparr>) None
        (Some \<lparr>StatusCode = 429, Header = [(''Retry-After'', [''1''])]\<rparr>) None None)
     = (Returns False, \<lparr>maxRetries = 0, attempts = 0, retryAfter = None\<rparr>) \<and>
   retries_granted (fst (IsNextRetry_calls (\<lambda>rs. (1, True))
       \<lparr>maxRetries = 0, attempts = 0, retryAfter = None\<rparr>
       [Call (Some \<lparr>Err = None\<rparr>) (Some \<lparr>client = Some \<lparr>base = None\<rparr>, body = None\<rparr>)
            (Some \<lparr>Method = ''GET'', URL = ''/api/v1/pods''\<rparr>)
            (Some \<lparr>StatusCode = 429, Header = [(''Retry-After'', [''1''])]\<rparr>) None None,
        Call (Some \<lparr>Err = None\<rparr>) (Some \<lparr>client = Some \<lparr>base = None\<rparr>, body = None\<rparr>)
            (Some \<lparr>Method = ''GET'', URL = ''/api/v1/pods''\<rparr>)
            (Some \<lparr>StatusCode = 503, Header = [(''Retry-After'', [''1''])]\<rparr>) None None])) = 0 \<and>
   Returns True \<notin> set (fst (IsNextRetry_calls (\<lambda>rs. (1, True))
       \<lparr>maxRetries = 0, attempts = 0, retryAfter = None\<rparr>
       [Call (Some \<lparr>Err = None\<rparr>) (Some \<lparr>client = Some \<lparr>base = None\<rparr>, body = None\<rparr>)
            (Some \<lparr>Method = ''GET'', URL = ''/api/v1/pods''\<rparr>)
            (Some \<lparr>StatusCode = 429, Header = [(''Retry-After'', [''1''])]\<rparr>) None None,
        Call (Some \<lparr>Err = None\<rparr>) (Some \<lparr>client = Some \<lparr>base = None\<rparr>, body = None\<rparr>)
            (Some \<lparr>Method = ''GET'', URL = ''/api/v1/pods''\<rparr>)
            (Some \<lparr>StatusCode = 503, Header = [(''Retry-After'', [''1''])]\<rparr>) None None]))"
  using IsNextRetry_ceiling
    [of "- 3" "\<lparr>maxRetries = 0, attempts = 0, retryAfter = None\<rparr>" "\<lambda>rs. (1, True)"
        "Call (Some \<lparr>Err = None\<rparr>) (Some \<lparr>client = Some \<lparr>base = None\<rparr>, body = None\<rparr>)
            (Some \<lparr>Method = ''GET'', URL = ''/api/v1/pods''\<rparr>)
            (Some \<lparr>StatusCode = 429, Header = [(''Retry-After'', [''1''])]\<rparr>) None None"
        None "Some \<lparr>StatusCode = 429, Header = [(''Retry-After'', [''1''])]\<rparr>" None
        "Some \<lparr>Err = None\<rparr>" "Some \<lparr>client = Some \<lparr>base = None\<rparr>, body = None\<rparr>" None
        "[Call (Some \<lparr>Err = None\<rparr>) (Some \<lparr>client = Some \<lparr>base = None\<rparr>, body = None\<rparr>)
            (Some \<lparr>Method = ''GET'', URL = ''/api/v1/pods''\<rparr>)
            (Some \<lparr>StatusCode = 429, Header = [(''Retry-After'', [''1''])]\<rparr>) None None,
        Call (Some \<lparr>Err = None\<rparr>) (Some \<lparr>client = Some \<lparr>base = None\<rparr>, body = None\<rparr>)
            (Some \<lparr>Method = ''GET'', URL = ''/api/v1/pods''\<rparr>)
            (Some \<lparr>StatusCode = 503, Header = [(''Retry-After'', [''1''])]\<rparr>) None None]"]
  by (simp add: wrap64_def)

text \<open>With a ceiling of 1 the first retryable response is granted a retry, the second is not.\<close>

lemma IsNextRetry_calls_example:
  "IsNextRetry_calls (\<lambda>rs. (1, True)) \<lparr>maxRetries = 1, attempts = 0, retryAfter = None\<rparr>
       [Call (Some \<lparr>Err = None\<rparr>) (Some \<lparr>client = Some \<lparr>base = None\<rparr>, body = None\<rparr>)
            (Some \<lparr>Method = ''GET'', URL = ''/api/v1/pods''\<rparr>)
            (Some \<lparr>StatusCode = 429, Header = [(''Retry-After'', [''1''])]\<rparr>) None None,
        Call (Some \<lparr>Err = None\<rparr>) (Some \<lparr>client = Some \<lparr>base = None\<rparr>, body = None\<rparr>)
            (Some \<lparr>Method = ''GET'', URL = ''/api/v1/pods''\<rparr>)
            (Some \<lparr>StatusCode = 503, Header = [(''Retry-After'', [''1''])]\<rparr>) None None]
   = ([Returns True, Returns False],
      \<lparr>maxRetries = 1, attempts = 2,
       retryAfter = Some \<lparr>Wait = 0, Attempt = 2, Reason = NoReason\<rparr>\<rparr>)"
  by (simp add: wrap64_def checkWait_def StatusTooManyRequests_def Second_def
      prepareForNextRetry_def Request_URL_def)

text \<open>
  The header of the flow schema is found under its canonical key, and a request
  without client makes the call panic where the retry would be granted.
\<close>

lemma getRetryReason_canonical_key:
  "getRetryReason 1 1
     \<lparr>StatusCode = 429,
      Header = [(''Retry-After'', [''1'']), (''X-Kubernetes-Pf-Flowschema-Uid'', [''fs-1''])]\<rparr>
     None
   = ServerSideThrottling 1 1 ''fs-1''"
  by code_simp

lemma IsNextRetry_nil_client:
  "fst (IsNextRetry (\<lambda>rs. (1, True)) \<lparr>maxRetries = 1, attempts = 0, retryAfter = None\<rparr>
         (Call (Some \<lparr>Err = None\<rparr>) (Some \<lparr>client = None, body = None\<rparr>)
            (Some \<lparr>Method = ''GET'', URL = ''/api/v1/pods''\<rparr>)
            (Some \<lparr>StatusCode = 429, Header = [(''Retry-After'', [''1''])]\<rparr>) None None))
   = Panics"
  by (simp add: wrap64_def checkWait_def StatusTooManyRequests_def
      prepareForNextRetry_def Request_URL_def)

section \<open>Properties of the lifecycle root\<close>

lemmas lifecycle_defs =
  main_def rootRun_def runProject_def selectProject_def handleExitSignal_def
  quit_def stopAll_def

lemma first_index_append:
  "a \<notin> set pre \<Longrightarrow>
   first_index a (pre @ xs) = map_option (\<lambda>i. length pre + i) (first_index a xs)"
proof (induction pre)
  case Nil
  show ?case by (cases "first_index a xs") simp_all
next
  case (Cons x pre)
  then show ?case by (cases "first_index a xs") auto
qed

lemma main_shutdown_shape:
  "PrintClosing \<in> set (fst (main w)) \<Longrightarrow>
   \<exists>pre. fst (main w) = pre @ [PrintClosing, WatcherStop, ForwarderStop, ProxyStop, RunnerStop] \<and>
     WatcherStop \<notin> set pre \<and> ForwarderStop \<notin> set pre \<and> ProxyStop \<notin> set pre \<and>
     RunnerStop \<notin> set pre"
  by (auto simp: lifecycle_defs Let_def
      split: option.splits cobra_result.splits prompt_result.splits mainloop_result.splits if_splits)

lemma stop_sequence_order:
  assumes "WatcherStop \<notin> set pre" "ForwarderStop \<notin> set pre" "ProxyStop \<notin> set pre"
    "RunnerStop \<notin> set pre"
  shows "invoked_before WatcherStop ForwarderStop
           (pre @ [PrintClosing, WatcherStop, ForwarderStop, ProxyStop, RunnerStop]) \<and>
         invoked_before ForwarderStop ProxyStop
           (pre @ [PrintClosing, WatcherStop, ForwarderStop, ProxyStop, RunnerStop]) \<and>
         invoked_before ProxyStop RunnerStop
           (pre @ [PrintClosing, WatcherStop, ForwarderStop, ProxyStop, RunnerStop]) \<and>
         stop_calls (pre @ [PrintClosing, WatcherStop, ForwarderStop, ProxyStop, RunnerStop])
           = [WatcherStop, ForwarderStop, ProxyStop, RunnerStop]"
proof -
  have "filter is_stop pre = []"
    using assms by (auto simp: filter_empty_conv is_stop_def)
  then show ?thesis
    using assms by (simp add: invoked_before_def first_index_append stop_calls_def is_stop_def)
qed

text \<open>
  C1 (as amended). When the lifecycle root shuts down, \<open>stopAll\<close> stops the
  components in the order Watcher, Forwarder, Proxy, Runner, and these four are
  all the Stop calls it makes: on every interrupt received by
  \<open>handleExitSignal\<close> and on every UI quit \<open>stopAll\<close> runs, and in every
  execution in which it runs \<open>Watcher.Stop\<close> is invoked before
  \<open>Forwarder.Stop\<close>, \<open>Forwarder.Stop\<close> before \<open>Proxy.Stop\<close>, and
  \<open>Proxy.Stop\<close> before \<open>Runner.Stop\<close>.
\<close>

theorem stopAll_order:
  "(received_interrupt w \<or> ui_quit w \<longrightarrow> PrintClosing \<in> set (fst (main w))) \<and>
   (PrintClosing \<in> set (fst (main w)) \<longrightarrow>
      stop_calls (fst (main w)) = [WatcherStop, ForwarderStop, ProxyStop, RunnerStop] \<and>
      invoked_before WatcherStop ForwarderStop (fst (main w)) \<and>
      invoked_before ForwarderStop ProxyStop (fst (main w)) \<and>
      invoked_before ProxyStop RunnerStop (fst (main w)))"
proof (intro conjI impI)
  assume "received_interrupt w \<or> ui_quit w"
  then show "PrintClosing \<in> set (fst (main w))"
    by (auto simp: lifecycle_defs received_interrupt_def ui_quit_def Let_def
      split: option.splits cobra_result.splits prompt_result.splits mainloop_result.splits if_splits)
next
  assume a: "PrintClosing \<in> set (fst (main w))"
  from main_shutdown_shape [OF a] obtain pre where
    shape: "fst (main w) = pre @ [PrintClosing, WatcherStop, ForwarderStop, ProxyStop, RunnerStop]"
    and pre: "WatcherStop \<notin> set pre" "ForwarderStop \<notin> set pre" "ProxyStop \<notin> set pre"
      "RunnerStop \<notin> set pre"
    by blast
  note ord = stop_sequence_order [OF pre]
  show "stop_calls (fst (main w)) = [WatcherStop, ForwarderStop, ProxyStop, RunnerStop]"
    using ord by (simp add: shape)
  show "invoked_before WatcherStop ForwarderStop (fst (main w))"
    using ord by (simp add: shape)
  show "invoked_before ForwarderStop ProxyStop (fst (main w))"
    using ord by (simp add: shape)
  show "invoked_before ProxyStop RunnerStop (fst (main w))"
    using ord by (simp add: shape)
qed

theorem stopAll_order_witness:
  "invoked_before WatcherStop ForwarderStop (fst (main
     \<lparr>cobraResult = RunRoot, envUI = False, flagUI = False, loadResult = None,
      promptResult = Chosen ''shop'', projectResult = None, hostfileResult = None,
      keybindingResult = None, mainLoopResult = LoopNil, interrupt = True\<rparr>)) \<and>
   invoked_before ForwarderStop ProxyStop (fst (main
     \<lparr>cobraResult = RunRoot, envUI = False, flagUI = False, loadResult = None,
      promptResult = Chosen ''shop'', projectResult = None, hostfileResult = None,
      keybindingResult = None, mainLoopResult = LoopNil, interrupt = True\<rparr>)) \<and>
   invoked_before ProxyStop RunnerStop (fst (main
     \<lparr>cobraResult = RunRoot, envUI = False, flagUI = False, loadResult = None,
      promptResult = Chosen ''shop'', projectResult = None, hostfileResult = None,
      keybindingResult = None, mainLoopResult = LoopNil, interrupt = True\<rparr>)) \<and>
   received_interrupt
     \<lparr>cobraResult = RunRoot, envUI = False, flagUI = False, loadResult = None,
      promptResult = Chosen ''shop'', projectResult = None, hostfileResult = None,
      keybindingResult = None, mainLoopResult = LoopNil, interrupt = True\<rparr>"
  using stopAll_order
    [of "\<lparr>cobraResult = RunRoot, envUI = False, flagUI = False, loadResult = None,
      promptResult = Chosen ''shop'', projectResult = None, hostfileResult = None,
      keybindingResult = None, mainLoopResult = LoopNil, interrupt = True\<rparr>"]
  by (simp add: received_interrupt_def uiEnabled_def)

text \<open>
  The order Runner before Forwarder fails in the execution that starts a project
  without the UI and receives an interrupt: \<open>Runner.Stop\<close> is the last call.
\<close>

theorem shutdown_order_counterexample:
  "fst (main
     \<lparr>cobraResult = RunRoot, envUI = False, flagUI = False, loadResult = None,
      promptResult = Chosen ''shop'', projectResult = None, hostfileResult = None,
      keybindingResult = None, mainLoopResult = LoopNil, interrupt = True\<rparr>)
   = [InitRuntimeEnvironment, PrintNewline, LayoutInit, WatcherWatch, PrintClosing,
      WatcherStop, ForwarderStop, ProxyStop, RunnerStop] \<and>
   \<not> invoked_before RunnerStop ForwarderStop (fst (main
     \<lparr>cobraResult = RunRoot, envUI = False, flagUI = False, loadResult = None,
      promptResult = Chosen ''shop'', projectResult = None, hostfileResult = None,
      keybindingResult = None, mainLoopResult = LoopNil, interrupt = True\<rparr>))"
  by (simp add: lifecycle_defs uiEnabled_def invoked_before_def)

lemma exit_status_cases:
  "exit_status w = None \<or> exit_status w = Some 0 \<or> exit_status w = Some 1"
  by (auto simp: lifecycle_defs exit_status_def Let_def
      split: option.splits cobra_result.splits prompt_result.splits mainloop_result.splits if_splits)

lemma exit_status_1:
  "(exit_status w = Some 1) = (case cobraResult w of ExecuteError _ \<Rightarrow> True | RunRoot \<Rightarrow> False)"
  by (auto simp: lifecycle_defs exit_status_def Let_def
      split: option.splits cobra_result.splits prompt_result.splits mainloop_result.splits if_splits)

lemma exit_status_interrupt:
  "received_interrupt w \<Longrightarrow> exit_status w = Some 0"
  by (auto simp: lifecycle_defs exit_status_def received_interrupt_def Let_def
      split: option.splits cobra_result.splits prompt_result.splits mainloop_result.splits if_splits)

lemma exit_status_load:
  "cobraResult w = RunRoot \<Longrightarrow> loadResult w = Some e \<Longrightarrow>
   main w = ([InitRuntimeEnvironment, PrintError e], Exit 0)"
  by (auto simp: lifecycle_defs exit_status_def Let_def)

lemma exit_status_prompt_interrupt:
  "cobraResult w = RunRoot \<Longrightarrow> loadResult w = None \<Longrightarrow>
   promptResult w = PromptError ''^C'' \<Longrightarrow> main w = ([InitRuntimeEnvironment, PrintBye], Exit 0)"
  by (simp add: lifecycle_defs)

lemma exit_status_ui_quit:
  "ui_quit w \<Longrightarrow> exit_status w = Some 0"
  by (auto simp: lifecycle_defs exit_status_def ui_quit_def Let_def
      split: prompt_result.splits)

text \<open>
  C2 (as amended). The exit status is 0 when the interrupt is received by
  \<open>handleExitSignal\<close> (after \<open>stopAll\<close>), on a UI quit, and when the prompt is
  interrupted; when the root command runs and \<open>config.Load\<close> returns an error,
  the error is printed, nothing else happens and the exit status is 0; the exit
  status is 1 exactly when \<open>Execute\<close> returns an error. No execution of the
  lifecycle root exits with another status than 0 or 1 (the others panic or stay
  blocked waiting for a signal).
\<close>

theorem exit_status_by_design:
  "(received_interrupt w \<longrightarrow> exit_status w = Some 0) \<and>
   (ui_quit w \<longrightarrow> exit_status w = Some 0) \<and>
   (cobraResult w = RunRoot \<and> loadResult w = None \<and> promptResult w = PromptError ''^C'' \<longrightarrow>
      main w = ([InitRuntimeEnvironment, PrintBye], Exit 0)) \<and>
   (cobraResult w = RunRoot \<and> loadResult w = Some e \<longrightarrow>
      main w = ([InitRuntimeEnvironment, PrintError e], Exit 0)) \<and>
   (exit_status w = Some 1) = (case cobraResult w of ExecuteError _ \<Rightarrow> True | RunRoot \<Rightarrow> False) \<and>
   (exit_status w = None \<or> exit_status w = Some 0 \<or> exit_status w = Some 1)"
  using exit_status_interrupt [of w] exit_status_ui_quit [of w] exit_status_load [of w e]
    exit_status_prompt_interrupt [of w] exit_status_1 [of w] exit_status_cases [of w]
  by blast

theorem exit_status_by_design_witness:
  "exit_status
     \<lparr>cobraResult = RunRoot, envUI = False, flagUI = False, loadResult = None,
      promptResult = Chosen ''shop'', projectResult = None, hostfileResult = None,
      keybindingResult = None, mainLoopResult = LoopNil, interrupt = True\<rparr> = Some 0 \<and>
   exit_status
     \<lparr>cobraResult = RunRoot, envUI = True, flagUI = False, loadResult = None,
      promptResult = Chosen ''shop'', projectResult = None, hostfileResult = None,
      keybindingResult = None, mainLoopResult = KeyCtrlC, interrupt = False\<rparr> = Some 0 \<and>
   main
     \<lparr>cobraResult = RunRoot, envUI = False, flagUI = False,
      loadResult = Some ''no configuration file'',
      promptResult = Chosen ''shop'', projectResult = None, hostfileResult = None,
      keybindingResult = None, mainLoopResult = LoopNil, interrupt = False\<rparr>
     = ([InitRuntimeEnvironment, PrintError ''no configuration file''], Exit 0) \<and>
   exit_status
     \<lparr>cobraResult = ExecuteError ''unknown flag'', envUI = False, flagUI = False,
      loadResult = None,
      promptResult = Chosen ''shop'', projectResult = None, hostfileResult = None,
      keybindingResult = None, mainLoopResult = LoopNil, interrupt = False\<rparr> = Some 1"
  using exit_status_by_design
    [of "\<lparr>cobraResult = RunRoot, envUI = False, flagUI = False, loadResult = None,
      promptResult = Chosen ''shop'', projectResult = None, hostfileResult = None,
      keybindingResult = None, mainLoopResult = LoopNil, interrupt = True\<rparr>" "[]"]
    exit_status_by_design
    [of "\<lparr>cobraResult = RunRoot, envUI = True, flagUI = False, loadResult = None,
      promptResult = Chosen ''shop'', projectResult = None, hostfileResult = None,
      keybindingResult = None, mainLoopResult = KeyCtrlC, interrupt = False\<rparr>" "[]"]
    exit_status_by_design
    [of "\<lparr>cobraResult = RunRoot, envUI = False, flagUI = False,
      loadResult = Some ''no configuration file'',
      promptResult = Chosen ''shop'', projectResult = None, hostfileResult = None,
      keybindingResult = None, mainLoopResult = LoopNil, interrupt = False\<rparr>"
      "''no configuration file''"]
    exit_status_by_design
    [of "\<lparr>cobraResult = ExecuteError ''unknown flag'', envUI = False, flagUI = False,
      loadResult = None,
      promptResult = Chosen ''shop'', projectResult = None, hostfileResult = None,
      keybindingResult = None, mainLoopResult = LoopNil, interrupt = False\<rparr>" "[]"]
  by (simp add: received_interrupt_def ui_quit_def uiEnabled_def)

text \<open>
  An interrupted execution does not exit with status 130, and an execution whose
  configuration fails to load does not exit with status 1: both exit with 0.
\<close>

theorem exit_status_counterexample:
  "exit_status
     \<lparr>cobraResult = RunRoot, envUI = False, flagUI = False, loadResult = None,
      promptResult = Chosen ''shop'', projectResult = None, hostfileResult = None,
      keybindingResult = None, mainLoopResult = LoopNil, interrupt = True\<rparr> \<noteq> Some 130 \<and>
   exit_status
     \<lparr>cobraResult = RunRoot, envUI = False, flagUI = False,
      loadResult = Some ''no configuration file'',
      promptResult = Chosen ''shop'', projectResult = None, hostfileResult = None,
      keybindingResult = None, mainLoopResult = LoopNil, interrupt = False\<rparr> \<noteq> Some 1"
  by (simp add: lifecycle_defs exit_status_def uiEnabled_def)

section \<open>Properties of the proxy\<close>

lemma AddProxyForward_latestPort [simp]:
  "latestPort (AddProxyForward p nm pf) = latestPort p + 1"
  by (simp add: AddProxyForward_def Let_def)

lemma AddProxyForward_ipLastByte [simp]:
  "ipLastByte (AddProxyForward p nm pf) = ipLastByte p + 1"
  by (simp add: AddProxyForward_def Let_def)








text \<open>
  The three registrations of the proxy's test: two names, three hostfile
  calls, port cursor 9403.
\<close>

lemma AddProxyForward_three_calls:
  "AddProxyForward_calls (NewProxy \<lparr>entries = [], addHostCalls = []\<rparr>)
      [(''test'', \<lparr>name = ''test'', target_hostname = ''hostname.svc.local'', proxy_ip = [],
                   proxy_port = 0, forward_port = 8081, local_port = 8080\<rparr>),
       (''test-2'', \<lparr>name = ''test-2'', target_hostname = ''hostname2.svc.local'', proxy_ip = [],
                     proxy_port = 0, forward_port = 8081, local_port = 8080\<rparr>),
       (''test-2'', \<lparr>name = ''test-2'', target_hostname = ''hostname3.svc.local'', proxy_ip = [],
                     proxy_port = 0, forward_port = 8082, local_port = 8081\<rparr>)]
   = \<lparr>hostfile =
        \<lparr>entries = [(''127.1.2.1'', ''hostname.svc.local''), (''127.1.2.2'', ''hostname2.svc.local''),
                    (''127.1.2.3'', ''hostname3.svc.local'')],
         addHostCalls = [(''127.1.2.1'', ''hostname.svc.local''), (''127.1.2.2'', ''hostname2.svc.local''),
                    (''127.1.2.3'', ''hostname3.svc.local'')]\<rparr>,
      ProxyForwards =
        [(''test'', \<lparr>name = ''test'', target_hostname = ''hostname.svc.local'',
                     proxy_ip = ''127.1.2.1'', proxy_port = 9400, forward_port = 8081,
                     local_port = 8080\<rparr>),
         (''test-2'', \<lparr>name = ''test-2'', target_hostname = ''hostname3.svc.local'',
                       proxy_ip = ''127.1.2.3'', proxy_port = 9402, forward_port = 8082,
                       local_port = 8081\<rparr>)],
      latestPort = 9403, ipLastByte = 4\<rparr>"
  by (simp add: NewProxy_def AddProxyForward_def allocate_def AddHost_def Let_def
      Itoa.simps digit_char_def)

end
